theory Spec2Isabelle
  imports Main "HOL-Library.AList"
begin

section \<open>Strings\<close>

text \<open>
  Go strings are byte sequences; \<^typ>\<open>string\<close> is a list of 8-bit characters.
  \<open>strings.Split\<close> is only ever called with the one-byte separator \<open>":"\<close>, so the
  separator is a single character here. It returns one more field than there are
  separators, hence never an empty slice.
\<close>

fun Split :: "string \<Rightarrow> char \<Rightarrow> string list" where
  "Split [] sep = [[]]"
| "Split (c # cs) sep =
     (if c = sep then [] # Split cs sep
      else (c # hd (Split cs sep)) # tl (Split cs sep))"

text \<open>
  The two parts of \<open>strings.ToLower\<close> that are plain byte work: the test whether a
  string is ASCII only, and the lower-casing of an ASCII byte (\<open>A\<close>..\<open>Z\<close> move up by
  32, every other byte stays).
\<close>

definition ascii :: "string \<Rightarrow> bool" where
  "ascii s = list_all (\<lambda>c. (of_char c :: nat) < 128) s"

definition lower_byte :: "char \<Rightarrow> char" where
  "lower_byte c =
     (let n = of_char c :: nat in if 65 \<le> n \<and> n \<le> 90 then char_of (n + 32) else c)"

definition HasPrefix :: "string \<Rightarrow> string \<Rightarrow> bool" where
  "HasPrefix s p = (length p \<le> length s \<and> take (length p) s = p)"

text \<open>
  \<open>strings.ReplaceAll(s, old, new)\<close> for a non-empty \<open>old\<close>: one pass from the left
  over non-overlapping occurrences. With an empty \<open>old\<close> Go inserts \<open>new\<close> around
  every rune; the program never does that, and the model returns \<open>s\<close> there.
\<close>

function ReplaceAll :: "string \<Rightarrow> string \<Rightarrow> string \<Rightarrow> string" where
  "ReplaceAll s old new =
     (if old = [] then s
      else if s = [] then []
      else if HasPrefix s old then new @ ReplaceAll (drop (length old) s) old new
      else hd s # ReplaceAll (tl s) old new)"
  by pat_completeness auto
termination
  by (relation "measure (\<lambda>(s, old, new). length s)") (auto simp: Suc_le_eq)

declare ReplaceAll.simps [simp del]

fun Contains :: "string \<Rightarrow> string \<Rightarrow> bool" where
  "Contains [] sub = (sub = [])"
| "Contains (c # cs) sub = (HasPrefix (c # cs) sub \<or> Contains cs sub)"

section \<open>Errors\<close>

text \<open>
  Every error value the modelled code creates or passes on. \<open>External\<close> stands for
  an error produced by a collaborator (key-value store, ordering API, order model).
  A Go panic (nil dereference) is the value \<open>Panic\<close>.
\<close>

datatype error =
    ErrNoCurrentOrder
  | ErrOrderNotFound
  | ErrToppingFormat
  | ErrNoProduct
  | ErrCannotFind string string
  | ErrCannotFindOrder string
  | ErrJSON
  | ErrBadService
  | ErrNoAddress
  | Panic
  | External string

fun message :: "error \<Rightarrow> string" where
  "message ErrNoCurrentOrder = ''cart has no current order set''"
| "message ErrOrderNotFound = ''could not find that order''"
| "message ErrToppingFormat = ''incorrect topping format''"
| "message ErrNoProduct = ''what product are these toppings being added to''"
| "message (ErrCannotFind product name) =
     ''cannot find '' @ [CHR 0x27] @ product @ [CHR 0x27] @ '' in the ''
       @ [CHR 0x27] @ name @ [CHR 0x27] @ '' order''"
| "message (ErrCannotFindOrder name) = ''cannot find order '' @ name"
| "message ErrJSON = ''invalid JSON''"
| "message ErrBadService = ''bad service method''"
| "message ErrNoAddress = ''no address''"
| "message Panic = ''nil pointer dereference''"
| "message (External m) = m"

section \<open>Order model\<close>

record address =
  LineOne :: string
  City :: string
  StateCode :: string
  Zip :: string

text \<open>
  Modelled from the spec: the \<open>dawg\<close> package's product item and order types are not
  among the sources. An item is a catalog code with a mapping from topping code to
  (placement, amount); an order is a name, an address snapshot (a pointer, possibly
  nil), a service method and the sequence of its items. The items of an order are
  distinct objects: a change to one is a change at its position in the sequence.
\<close>

record item =
  Code :: string
  Opts :: "string \<rightharpoonup> string \<times> string"

record order =
  OrderName :: string
  Address :: "address option"
  ServiceMethod :: string
  Products :: "item list"

definition empty_order :: order where
  "empty_order = \<lparr>OrderName = [], Address = None, ServiceMethod = [], Products = []\<rparr>"

text \<open>
  The parts of package \<open>dawg\<close> that the cart calls and whose code is not among the
  sources are parameters: the three placement constants, \<open>Item.AddTopping\<close> (it may
  change the item and may fail), \<open>Menu.GetVariant\<close>, \<open>Order.AddProduct\<close>,
  \<open>Order.Validate\<close> and \<open>IsWarning\<close>. \<open>'m\<close> is the type of a menu; a \<open>*Menu\<close>
  may be nil. With them goes the one part of Go's library whose behaviour is a
  table: \<open>unicode_ToLower\<close> is what \<open>strings.ToLower\<close> returns on a string that is not
  ASCII only, where it maps every rune through the Unicode case tables.
\<close>

record 'm dawg =
  ToppingFull :: string
  ToppingLeft :: string
  ToppingRight :: string
  Item_AddTopping :: "string \<Rightarrow> string \<Rightarrow> string \<Rightarrow> item \<Rightarrow> item \<times> error option"
  Menu_GetVariant :: "'m option \<Rightarrow> string \<Rightarrow> error + item"
  Order_AddProduct :: "order \<Rightarrow> item \<Rightarrow> order \<times> error option"
  Order_Validate :: "order \<Rightarrow> order \<times> error option"
  IsWarning :: "error option \<Rightarrow> bool"
  unicode_ToLower :: "string \<Rightarrow> string"

section \<open>Topping specifications (cmd/cart/cart.go)\<close>

text \<open>
  \<open>strings.ToLower\<close>: an ASCII-only string is lowered byte by byte; any other string
  goes rune by rune through the Unicode tables.
\<close>

definition ToLower :: "'m dawg \<Rightarrow> string \<Rightarrow> string" where
  "ToLower k s = (if ascii s then map lower_byte s else unicode_ToLower k s)"

text \<open>The \<open>switch\<close> on the lower-cased side field.\<close>

definition placement :: "'m dawg \<Rightarrow> string \<Rightarrow> string" where
  "placement k side =
     (let l = ToLower k side in
      if l = ''left'' then ToppingLeft k
      else if l = ''right'' then ToppingRight k
      else if l = ''full'' then ToppingFull k
      else side)"

text \<open>
  \<open>addTopping\<close> up to its last line: the split, the format check, and the choice of
  side and amount. The result is the triple handed to \<open>Item.AddTopping\<close>.
\<close>

definition toppingSpec :: "'m dawg \<Rightarrow> string \<Rightarrow> error + string \<times> string \<times> string" where
  "toppingSpec k topStr =
     (let topping = Split topStr CHR '':'' in
      if hd topping = [] \<or> 3 < length topping then Inl ErrToppingFormat
      else
        let side = (if length topping = 1 then ToppingFull k
                    else if 2 \<le> length topping then placement k (topping ! 1)
                    else []);
            amount = (if length topping = 3 then topping ! 2 else ''1.0'')
        in Inr (hd topping, side, amount))"

definition addTopping :: "'m dawg \<Rightarrow> string \<Rightarrow> item \<Rightarrow> item \<times> error option" where
  "addTopping k topStr p =
     (case toppingSpec k topStr of
        Inl e \<Rightarrow> (p, Some e)
      | Inr (name, side, amount) \<Rightarrow> Item_AddTopping k name side amount p)"

text \<open>
  The older \<open>addTopping\<close> of cmd/cart.go: its only check is \<open>len(topping) < 1\<close>, and
  the side field is taken as written.
\<close>

definition legacy_toppingSpec :: "'m dawg \<Rightarrow> string \<Rightarrow> error + string \<times> string \<times> string" where
  "legacy_toppingSpec k topStr =
     (let topping = Split topStr CHR '':'' in
      if length topping < 1 then Inl ErrToppingFormat
      else
        let side = (if length topping = 1 then ToppingFull k
                    else if 2 \<le> length topping then topping ! 1
                    else []);
            amount = (if length topping = 3 then topping ! 2 else ''1.0'')
        in Inr (hd topping, side, amount))"

text \<open>Its last two lines call \<open>p.AddTopping\<close>, drop the error it returns, and return nil.\<close>

definition legacy_addTopping :: "'m dawg \<Rightarrow> string \<Rightarrow> item \<Rightarrow> item \<times> error option" where
  "legacy_addTopping k topStr p =
     (case legacy_toppingSpec k topStr of
        Inl e \<Rightarrow> (p, Some e)
      | Inr (name, side, amount) \<Rightarrow> (fst (Item_AddTopping k name side amount p), None))"

text \<open>
  The notions the specification of the parser is written in: the name field is the
  text before the first colon, and a string has one more colon-delimited field than
  it has colons. A casing of a lower-case keyword has, at each position, the
  keyword's letter or its upper-case form.
\<close>

definition name_field :: "string \<Rightarrow> string" where
  "name_field s = takeWhile (\<lambda>c. c \<noteq> CHR '':'') s"

definition field_count :: "string \<Rightarrow> nat" where
  "field_count s = Suc (length (filter (\<lambda>c. c = CHR '':'') s))"

definition upper_of :: "char \<Rightarrow> char" where
  "upper_of c = char_of (of_char c - (32 :: nat))"

definition casing_of :: "string \<Rightarrow> string \<Rightarrow> bool" where
  "casing_of keyword s = list_all2 (\<lambda>c w. c = w \<or> c = upper_of w) s keyword"

section \<open>Adding toppings and products to an order (cmd/cart/cart.go)\<close>

fun getOrderItem_list :: "item list \<Rightarrow> string \<Rightarrow> item option" where
  "getOrderItem_list [] code = None"
| "getOrderItem_list (itm # rest) code =
     (if Code itm = code then Some itm else getOrderItem_list rest code)"

definition getOrderItem :: "order \<Rightarrow> string \<Rightarrow> item option" where
  "getOrderItem order code = getOrderItem_list (Products order) code"

text \<open>
  \<open>getOrderItem\<close> returns a reference into the order, and \<open>Item.AddTopping\<close> changes
  the item it is given in place. \<open>put_item\<close> is that write: the new state of the item
  at the position where \<open>getOrderItem\<close> found it.
\<close>

fun put_item_list :: "item list \<Rightarrow> string \<Rightarrow> item \<Rightarrow> item list" where
  "put_item_list [] code p = []"
| "put_item_list (itm # rest) code p =
     (if Code itm = code then p # rest else itm # put_item_list rest code p)"

definition put_item :: "order \<Rightarrow> string \<Rightarrow> item \<Rightarrow> order" where
  "put_item order code p = order\<lparr>Products := put_item_list (Products order) code p\<rparr>"

fun toppings_loop :: "'m dawg \<Rightarrow> order \<Rightarrow> string \<Rightarrow> string list \<Rightarrow> order \<times> error option" where
  "toppings_loop k o1 product [] = (o1, None)"
| "toppings_loop k o1 product (tp # rest) =
     (case getOrderItem o1 product of
        None \<Rightarrow> (o1, Some (ErrCannotFind product (OrderName o1)))
      | Some p \<Rightarrow>
          (case addTopping k tp p of
             (p', Some e) \<Rightarrow> (put_item o1 product p', Some e)
           | (p', None) \<Rightarrow> toppings_loop k (put_item o1 product p') product rest))"

definition addToppingsToOrder ::
  "'m dawg \<Rightarrow> order \<Rightarrow> string \<Rightarrow> string list \<Rightarrow> order \<times> error option" where
  "addToppingsToOrder k o1 product toppings =
     (if product = [] then (o1, Some ErrNoProduct)
      else toppings_loop k o1 product toppings)"

fun addProducts :: "'m dawg \<Rightarrow> order \<Rightarrow> 'm option \<Rightarrow> string list \<Rightarrow> order \<times> error option" where
  "addProducts k o1 menu [] = (o1, None)"
| "addProducts k o1 menu (newP # rest) =
     (case Menu_GetVariant k menu newP of
        Inl e \<Rightarrow> (o1, Some e)
      | Inr itm \<Rightarrow>
          (case Order_AddProduct k o1 itm of
             (o2, Some e) \<Rightarrow> (o2, Some e)
           | (o2, None) \<Rightarrow> addProducts k o2 menu rest))"

text \<open>
  Modelled from the spec: \<open>Item.AddTopping\<close> is not among the sources. The spec has it
  upsert the placement under the topping code, the latest placement winning. Used
  where a concrete \<open>dawg\<close> is needed; the general statements hold for every one.
\<close>

definition upsert_topping :: "string \<Rightarrow> string \<Rightarrow> string \<Rightarrow> item \<Rightarrow> item \<times> error option" where
  "upsert_topping name side amount p = (p\<lparr>Opts := (Opts p)(name \<mapsto> (side, amount))\<rparr>, None)"

text \<open>
  Modelled from the spec: \<open>Order.AddProduct\<close> (appends the item), \<open>Menu.GetVariant\<close>
  (looks the code up in the catalog, here an association list; a nil menu has no
  variants), \<open>Order.Validate\<close> and \<open>IsWarning\<close> are not among the sources either.
\<close>

definition append_product :: "order \<Rightarrow> item \<Rightarrow> order \<times> error option" where
  "append_product o1 itm = (o1\<lparr>Products := Products o1 @ [itm]\<rparr>, None)"

definition lookup_variant :: "(string \<times> item) list option \<Rightarrow> string \<Rightarrow> error + item" where
  "lookup_variant menu code =
     (case menu of
        None \<Rightarrow> Inl (External ''variant not found'')
      | Some m \<Rightarrow>
          (case map_of m code of
             None \<Rightarrow> Inl (External ''variant not found'')
           | Some itm \<Rightarrow> Inr itm))"

text \<open>
  A fragment of the Unicode lower-casing, for the samples: the rune U+0130 (bytes
  \<open>C4 B0\<close>, capital I with dot) becomes \<open>i\<close>, an ASCII capital is lowered, and every
  other byte is kept.
\<close>

fun sample_lower :: "string \<Rightarrow> string" where
  "sample_lower [] = []"
| "sample_lower [a] = [lower_byte a]"
| "sample_lower (a # b # rest) =
     (if a = CHR 0xC4 \<and> b = CHR 0xB0 then CHR ''i'' # sample_lower rest
      else lower_byte a # sample_lower (b # rest))"

definition std_dawg :: "(string \<times> item) list dawg" where
  "std_dawg =
     \<lparr>ToppingFull = ''1/1'', ToppingLeft = ''1/2'', ToppingRight = ''2/2'',
      Item_AddTopping = upsert_topping,
      Menu_GetVariant = lookup_variant,
      Order_AddProduct = append_product,
      Order_Validate = (\<lambda>o1. (o1, if Products o1 = [] then Some (External ''no products'') else None)),
      IsWarning = (\<lambda>e. False),
      unicode_ToLower = sample_lower\<rparr>"

section \<open>The key-value store and the serialisation\<close>

text \<open>
  Modelled from the spec: package \<open>pkg/cache\<close> and the JSON form of an order are not
  among the sources. Stored bytes are modelled by what \<open>json.Unmarshal\<close> makes of
  them: no bytes at all, bytes that do not decode, or a document in which each field
  of the order is either absent or present. The order's name is not a field of the
  document: it is carried by the key, and both loaders set it from the requested
  name. \<open>json.Marshal\<close> writes every field (the spec: all fields round-trip).
\<close>

datatype 'a field = Absent | Present 'a

record doc =
  doc_Address :: "address option field"
  doc_ServiceMethod :: "string field"
  doc_Products :: "item list field"

datatype bytes = Empty | Malformed | Document doc

definition json_Marshal :: "order \<Rightarrow> error + bytes" where
  "json_Marshal o1 =
     Inr (Document \<lparr>doc_Address = Present (Address o1),
                    doc_ServiceMethod = Present (ServiceMethod o1),
                    doc_Products = Present (Products o1)\<rparr>)"

text \<open>
  \<open>json.Unmarshal\<close> into an existing struct: a field the document carries overwrites
  the struct's field, a field it does not carry keeps the value the struct had.
\<close>

definition json_Unmarshal :: "bytes \<Rightarrow> order \<Rightarrow> order \<times> error option" where
  "json_Unmarshal raw o1 =
     (case raw of
        Empty \<Rightarrow> (o1, Some ErrJSON)
      | Malformed \<Rightarrow> (o1, Some ErrJSON)
      | Document d \<Rightarrow>
          (o1\<lparr>Address := (case doc_Address d of Absent \<Rightarrow> Address o1 | Present a \<Rightarrow> a),
              ServiceMethod :=
                (case doc_ServiceMethod d of Absent \<Rightarrow> ServiceMethod o1 | Present m \<Rightarrow> m),
              Products := (case doc_Products d of Absent \<Rightarrow> Products o1 | Present ps \<Rightarrow> ps)\<rparr>,
           None))"

text \<open>
  The store: its key/value pairs in the order in which \<open>Map()\<close> hands them out (Go
  fixes no iteration order; no statement below depends on it), and the I/O error,
  if any, that every operation reports. A key that is not stored reads as no bytes.
\<close>

record DataBase =
  entries :: "(string \<times> bytes) list"
  fault :: "error option"

definition db_Get :: "DataBase \<Rightarrow> string \<Rightarrow> error + bytes" where
  "db_Get d key =
     (case fault d of
        Some e \<Rightarrow> Inl e
      | None \<Rightarrow> Inr (case map_of (entries d) key of None \<Rightarrow> Empty | Some raw \<Rightarrow> raw))"

definition db_Put :: "DataBase \<Rightarrow> string \<Rightarrow> bytes \<Rightarrow> DataBase \<times> error option" where
  "db_Put d key raw =
     (case fault d of
        Some e \<Rightarrow> (d, Some e)
      | None \<Rightarrow> (d\<lparr>entries := AList.update key raw (entries d)\<rparr>, None))"

definition db_Delete :: "DataBase \<Rightarrow> string \<Rightarrow> DataBase \<times> error option" where
  "db_Delete d key =
     (case fault d of
        Some e \<Rightarrow> (d, Some e)
      | None \<Rightarrow> (d\<lparr>entries := AList.delete key (entries d)\<rparr>, None))"

definition db_Map :: "DataBase \<Rightarrow> error + (string \<times> bytes) list" where
  "db_Map d = (case fault d of Some e \<Rightarrow> Inl e | None \<Rightarrow> Inr (entries d))"

section \<open>Stored orders (cmd/internal/data/managedb.go)\<close>

definition OrderPrefix :: string where
  "OrderPrefix = ''user_order_''"

definition data_GetOrder :: "string \<Rightarrow> DataBase \<Rightarrow> error + order" where
  "data_GetOrder name d =
     (case db_Get d (OrderPrefix @ name) of
        Inl e \<Rightarrow> Inl e
      | Inr raw \<Rightarrow>
          (case raw of
             Empty \<Rightarrow> Inl (ErrCannotFindOrder name)
           | _ \<Rightarrow>
               (case json_Unmarshal raw empty_order of
                  (o1, Some e) \<Rightarrow> Inl e
                | (o1, None) \<Rightarrow> Inr (o1\<lparr>OrderName := name\<rparr>))))"

definition SaveOrder :: "order \<Rightarrow> DataBase \<Rightarrow> DataBase \<times> error option" where
  "SaveOrder o1 d =
     (case json_Marshal o1 of
        Inl e \<Rightarrow> (d, Some e)
      | Inr raw \<Rightarrow> db_Put d (OrderPrefix @ OrderName o1) raw)"

fun orders_loop :: "string list \<Rightarrow> string list \<Rightarrow> string list" where
  "orders_loop orders [] = orders"
| "orders_loop orders (k # ks) =
     (if Contains k OrderPrefix
      then orders_loop (orders @ [ReplaceAll k OrderPrefix []]) ks
      else orders_loop orders ks)"

definition PrintOrders :: "DataBase \<Rightarrow> string list \<Rightarrow> string list \<times> error option" where
  "PrintOrders d w =
     (case db_Map d of
        Inl e \<Rightarrow> (w, Some e)
      | Inr all \<Rightarrow>
          (let orders = orders_loop [] (map fst all) in
           if length orders < 1 then (w @ [''No orders saved.''], None)
           else (w @ [''Your Orders:''] @ map (\<lambda>o1. ''  '' @ o1) orders, None)))"

section \<open>The cart (cmd/cart/cart.go)\<close>

text \<open>
  What the cart reads from outside when it runs: the clock, the configured menu
  update time, what the store answers to a menu request, and the address the store
  finder reports (the user's default address).
\<close>

record 'm world =
  now :: int
  MenuUpdateTime :: int
  FetchMenu :: "error + 'm"
  finder_Address :: address

text \<open>
  The cart: the store, the menu cacher's entries (catalog and time of last refresh,
  by key), the current order (a pointer, possibly nil) and the output writer (nil
  until \<open>SetOutput\<close> is called; the lines written so far otherwise).
\<close>

record 'm cart =
  db :: DataBase
  menu_cache :: "string \<rightharpoonup> 'm \<times> int"
  CurrentOrder :: "order option"
  out :: "string list option"

definition Cart_GetOrder :: "'m world \<Rightarrow> 'm cart \<Rightarrow> string \<Rightarrow> order option \<times> error option" where
  "Cart_GetOrder w c name =
     (case db_Get (db c) (OrderPrefix @ name) of
        Inl e \<Rightarrow> (None, Some e)
      | Inr raw \<Rightarrow>
          (case raw of
             Empty \<Rightarrow> (None, Some ErrOrderNotFound)
           | _ \<Rightarrow>
               (let order = empty_order\<lparr>OrderName := name, Address := Some (finder_Address w)\<rparr>
                in case json_Unmarshal raw order of (o1, err) \<Rightarrow> (Some o1, err))))"

definition SetCurrentOrder :: "'m world \<Rightarrow> 'm cart \<Rightarrow> string \<Rightarrow> 'm cart \<times> error option" where
  "SetCurrentOrder w c name =
     (case Cart_GetOrder w c name of (o1, err) \<Rightarrow> (c\<lparr>CurrentOrder := o1\<rparr>, err))"

definition SetOutput :: "'m cart \<Rightarrow> string list \<Rightarrow> 'm cart" where
  "SetOutput c wr = c\<lparr>out := Some wr\<rparr>"

definition DeleteOrder :: "'m cart \<Rightarrow> string \<Rightarrow> 'm cart \<times> error option" where
  "DeleteOrder c name =
     (case db_Delete (db c) (OrderPrefix @ name) of (d, err) \<Rightarrow> (c\<lparr>db := d\<rparr>, err))"

fun names_loop :: "string list \<Rightarrow> string list \<Rightarrow> string list" where
  "names_loop names [] = names"
| "names_loop names (k # ks) =
     (if HasPrefix k OrderPrefix
      then names_loop (names @ [ReplaceAll k OrderPrefix []]) ks
      else names_loop names ks)"

definition ListOrders :: "'m cart \<Rightarrow> error + string list" where
  "ListOrders c =
     (case db_Map (db c) of
        Inl e \<Rightarrow> Inl e
      | Inr mp \<Rightarrow> Inr (names_loop [] (map fst mp)))"

definition Validate :: "'m dawg \<Rightarrow> 'm cart \<Rightarrow> 'm cart \<times> error option" where
  "Validate k c =
     (case CurrentOrder c of
        None \<Rightarrow> (c, Some ErrNoCurrentOrder)
      | Some o1 \<Rightarrow>
          (case out c of
             None \<Rightarrow> (c, Some Panic)
           | Some wr \<Rightarrow>
               (let wr1 = wr @ [''validating order '' @ [CHR 0x27] @ OrderName o1 @ [CHR 0x27] @ ''...''];
                    (o2, err) = Order_Validate k o1
                in if IsWarning k err then (c\<lparr>CurrentOrder := Some o2, out := Some wr1\<rparr>, None)
                   else (c\<lparr>CurrentOrder := Some o2, out := Some (wr1 @ [''Order is ok.''])\<rparr>, err))))"

definition AddToppings :: "'m dawg \<Rightarrow> 'm cart \<Rightarrow> string \<Rightarrow> string list \<Rightarrow> 'm cart \<times> error option" where
  "AddToppings k c product toppings =
     (case CurrentOrder c of
        None \<Rightarrow> (c, Some ErrNoCurrentOrder)
      | Some o1 \<Rightarrow>
          (case addToppingsToOrder k o1 product toppings of
             (o2, err) \<Rightarrow> (c\<lparr>CurrentOrder := Some o2\<rparr>, err)))"

text \<open>
  Modelled from the spec: \<open>DataBase.UpdateTS\<close> and the menu cacher's \<open>Menu\<close> are not
  among the sources. \<open>UpdateTS key\<close> is the spec's \<open>UpdateIfStale\<close>: when the entry is
  absent, or older than the configured update time, the catalog is fetched again
  and entry and time stamp are overwritten; otherwise nothing happens. \<open>Menu\<close> returns
  the cached catalog and fetches one when there is no entry.
\<close>

definition stale :: "'m world \<Rightarrow> 'm cart \<Rightarrow> string \<Rightarrow> bool" where
  "stale w c key =
     (case menu_cache c key of
        None \<Rightarrow> True
      | Some (m, t) \<Rightarrow> MenuUpdateTime w < now w - t)"

definition UpdateTS :: "'m world \<Rightarrow> string \<Rightarrow> 'm cart \<Rightarrow> 'm cart \<times> error option" where
  "UpdateTS w key c =
     (case fault (db c) of
        Some e \<Rightarrow> (c, Some e)
      | None \<Rightarrow>
          (if stale w c key then
             (case FetchMenu w of
                Inl e \<Rightarrow> (c, Some e)
              | Inr m \<Rightarrow> (c\<lparr>menu_cache := (menu_cache c)(key \<mapsto> (m, now w))\<rparr>, None))
           else (c, None)))"

definition Menu :: "'m world \<Rightarrow> 'm cart \<Rightarrow> 'm option \<times> 'm cart" where
  "Menu w c =
     (case menu_cache c ''menu'' of
        Some (m, t) \<Rightarrow> (Some m, c)
      | None \<Rightarrow>
          (case FetchMenu w of
             Inl e \<Rightarrow> (None, c)
           | Inr m \<Rightarrow> (Some m, c\<lparr>menu_cache := (menu_cache c)(''menu'' \<mapsto> (m, now w))\<rparr>)))"

definition AddProducts ::
  "'m world \<Rightarrow> 'm dawg \<Rightarrow> 'm cart \<Rightarrow> string list \<Rightarrow> 'm cart \<times> error option" where
  "AddProducts w k c products =
     (case CurrentOrder c of
        None \<Rightarrow> (c, Some ErrNoCurrentOrder)
      | Some o1 \<Rightarrow>
          (case UpdateTS w ''menu'' c of
             (c1, Some e) \<Rightarrow> (c1, Some e)
           | (c1, None) \<Rightarrow>
               (case Menu w c1 of
                  (menu, c2) \<Rightarrow>
                    (case addProducts k o1 menu products of
                       (o2, err) \<Rightarrow> (c2\<lparr>CurrentOrder := Some o2\<rparr>, err)))))"

section \<open>The user and the store locator\<close>

text \<open>
  Modelled from the spec: \<open>dawg/user.go\<close> is not among the sources (only its test
  is). A user has addresses, the first being the default, a service method, and the
  memoised nearest store, kept with the (address, service method) pair it was
  computed under. A store found by a lookup is a new object; its \<open>handle\<close> stands for
  the pointer, and is the number of lookups made before it. \<open>api_calls\<close> counts the
  lookups against the ordering API, which is the parameter \<open>api\<close>.
\<close>

definition Delivery :: string where
  "Delivery = ''Delivery''"

definition Carryout :: string where
  "Carryout = ''Carryout''"

record store =
  handle :: nat
  store_id :: string
  userAddress :: address
  userService :: string

record user =
  Addresses :: "address list"
  UserServiceMethod :: string
  memo :: "((address \<times> string) \<times> store) option"
  api_calls :: nat

definition DefaultAddress :: "user \<Rightarrow> address option" where
  "DefaultAddress u = (case Addresses u of [] \<Rightarrow> None | a # rest \<Rightarrow> Some a)"

definition valid_service :: "string \<Rightarrow> bool" where
  "valid_service m = (m = Delivery \<or> m = Carryout)"

definition SetServiceMethod :: "string \<Rightarrow> user \<Rightarrow> user \<times> error option" where
  "SetServiceMethod m u =
     (if valid_service m then (u\<lparr>UserServiceMethod := m\<rparr>, None)
      else (u, Some ErrBadService))"

definition lookup_store ::
  "(address \<Rightarrow> string \<Rightarrow> error + string) \<Rightarrow> address \<Rightarrow> string \<Rightarrow> user \<Rightarrow> user \<times> (error + store)" where
  "lookup_store api a m u =
     (case api a m of
        Inl e \<Rightarrow> (u\<lparr>api_calls := Suc (api_calls u)\<rparr>, Inl e)
      | Inr sid \<Rightarrow>
          (let s = \<lparr>handle = api_calls u, store_id = sid, userAddress = a, userService = m\<rparr>
           in (u\<lparr>memo := Some ((a, m), s), api_calls := Suc (api_calls u)\<rparr>, Inr s)))"

definition NearestStore ::
  "(address \<Rightarrow> string \<Rightarrow> error + string) \<Rightarrow> string \<Rightarrow> user \<Rightarrow> user \<times> (error + store)" where
  "NearestStore api m u =
     (case DefaultAddress u of
        None \<Rightarrow> (u, Inl ErrNoAddress)
      | Some a \<Rightarrow>
          (if \<not> valid_service m then (u, Inl ErrBadService)
           else
             (case memo u of
                None \<Rightarrow> lookup_store api a m u
              | Some (key, s) \<Rightarrow> if key = (a, m) then (u, Inr s) else lookup_store api a m u)))"

section \<open>Sample data\<close>

text \<open>Concrete values at which the statements below are evaluated.\<close>

definition home :: address where
  "home = \<lparr>LineOne = ''1 Main St'', City = ''Springfield'', StateCode = ''IL'', Zip = ''62701''\<rparr>"

definition office :: address where
  "office = \<lparr>LineOne = ''9 Elm Ave'', City = ''Springfield'', StateCode = ''IL'', Zip = ''62704''\<rparr>"

definition pizza :: item where
  "pizza = \<lparr>Code = ''14SCREEN'', Opts = Map.empty\<rparr>"

definition pizza1 :: order where
  "pizza1 = \<lparr>OrderName = ''pizza1'', Address = Some home, ServiceMethod = ''Delivery'',
             Products = [pizza]\<rparr>"

definition old_menu :: "(string \<times> item) list" where
  "old_menu = [(''14SCREEN'', pizza)]"

definition new_menu :: "(string \<times> item) list" where
  "new_menu = [(''14SCREEN'', pizza), (''2LCOKE'', \<lparr>Code = ''2LCOKE'', Opts = Map.empty\<rparr>)]"

definition today :: "(string \<times> item) list world" where
  "today = \<lparr>now = 1000, MenuUpdateTime = 60, FetchMenu = Inr new_menu, finder_Address = office\<rparr>"

definition empty_db :: DataBase where
  "empty_db = \<lparr>entries = [], fault = None\<rparr>"

definition sample_cart :: "(string \<times> item) list cart" where
  "sample_cart = \<lparr>db = empty_db, menu_cache = [''menu'' \<mapsto> (old_menu, 0)],
                  CurrentOrder = Some pizza1, out = Some []\<rparr>"

definition idle_cart :: "(string \<times> item) list cart" where
  "idle_cart = sample_cart\<lparr>CurrentOrder := None\<rparr>"

definition sample_user :: user where
  "sample_user = \<lparr>Addresses = [home], UserServiceMethod = ''Carryout'', memo = None, api_calls = 0\<rparr>"

definition sample_api :: "address \<Rightarrow> string \<Rightarrow> error + string" where
  "sample_api a m = (if a = home then Inr ''4336'' else Inr ''4337'')"

section \<open>Facts about the string functions\<close>

lemma Split_nonempty: "Split s sep \<noteq> []"
  by (induction s) auto

lemma hd_Split: "hd (Split s sep) = takeWhile (\<lambda>c. c \<noteq> sep) s"
  by (induction s) auto

lemma length_Split: "length (Split s sep) = Suc (length (filter (\<lambda>c. c = sep) s))"
proof (induction s)
  case Nil
  then show ?case by simp
next
  case (Cons c cs)
  with Split_nonempty [of cs sep] show ?case by (cases "Split cs sep") auto
qed

lemma Split_no_sep: "sep \<notin> set s \<Longrightarrow> Split s sep = [s]"
  by (induction s) auto

lemma Split_append: "sep \<notin> set a \<Longrightarrow> Split (a @ sep # b) sep = a # Split b sep"
  by (induction a) auto

lemma of_char_upper_of:
  assumes "97 \<le> (of_char w :: nat)" "(of_char w :: nat) \<le> 122"
  shows "(of_char (upper_of w) :: nat) = of_char w - 32"
  using assms by (simp add: upper_of_def)

lemma lower_byte_lower:
  assumes "97 \<le> (of_char w :: nat)" "(of_char w :: nat) \<le> 122"
  shows "(lower_byte c = w) = (c = w \<or> c = upper_of w)"
proof (cases "65 \<le> (of_char c :: nat) \<and> (of_char c :: nat) \<le> 90")
  case True
  then have "lower_byte c = char_of (of_char c + (32 :: nat))"
    by (simp add: lower_byte_def)
  then have "(lower_byte c = w) = ((of_char c :: nat) + 32 = of_char w)"
    using True by (simp add: char_of_eq_iff take_bit_eq_mod)
  also have "\<dots> = ((of_char c :: nat) = of_char (upper_of w))"
    using assms by (auto simp: of_char_upper_of)
  also have "\<dots> = (c = upper_of w)" by simp
  finally show ?thesis using True assms by auto
next
  case False
  then have "lower_byte c = c" by (auto simp: lower_byte_def)
  moreover have "c \<noteq> upper_of w"
  proof
    assume "c = upper_of w"
    then have "(of_char c :: nat) = of_char w - 32" using assms by (simp add: of_char_upper_of)
    with False assms show False by auto
  qed
  ultimately show ?thesis by auto
qed

text \<open>
  Byte-wise lowering gives a lower-case keyword exactly on the casings of that
  keyword, and a casing of a keyword is an ASCII string.
\<close>

lemma map_lower_casing:
  "list_all (\<lambda>c. 97 \<le> (of_char c :: nat) \<and> (of_char c :: nat) \<le> 122) w \<Longrightarrow>
   (map lower_byte s = w) = casing_of w s"
proof (induction s arbitrary: w)
  case Nil
  then show ?case by (auto simp: casing_of_def)
next
  case (Cons c cs)
  show ?case
  proof (cases w)
    case Nil
    then show ?thesis by (simp add: casing_of_def)
  next
    case (Cons x xs)
    with Cons.prems have x: "97 \<le> (of_char x :: nat)" "(of_char x :: nat) \<le> 122"
      and xs: "list_all (\<lambda>c. 97 \<le> (of_char c :: nat) \<and> (of_char c :: nat) \<le> 122) xs"
      by simp_all
    from Cons.IH [OF xs] lower_byte_lower [OF x, of c] Cons show ?thesis
      by (simp add: casing_of_def)
  qed
qed

lemma casing_ascii:
  "list_all (\<lambda>c. 97 \<le> (of_char c :: nat) \<and> (of_char c :: nat) \<le> 122) w \<Longrightarrow>
   casing_of w s \<Longrightarrow> ascii s"
proof (induction s arbitrary: w)
  case Nil
  then show ?case by (simp add: ascii_def)
next
  case (Cons c cs)
  from Cons.prems(2) obtain x xs where w: "w = x # xs" and c: "c = x \<or> c = upper_of x"
    and rest: "casing_of xs cs"
    by (cases w) (auto simp: casing_of_def)
  from Cons.prems(1) w have x: "97 \<le> (of_char x :: nat)" "(of_char x :: nat) \<le> 122"
    and xs: "list_all (\<lambda>c. 97 \<le> (of_char c :: nat) \<and> (of_char c :: nat) \<le> 122) xs"
    by simp_all
  from c x of_char_upper_of [OF x] have "(of_char c :: nat) < 128" by auto
  with Cons.IH [OF xs rest] show ?case by (simp add: ascii_def)
qed

text \<open>
  So \<open>strings.ToLower\<close> gives a keyword on every casing of it; on an ASCII string it
  gives the keyword on nothing else; and on any other string the result is what the
  Unicode tables say.
\<close>

lemma ToLower_casing:
  assumes "list_all (\<lambda>c. 97 \<le> (of_char c :: nat) \<and> (of_char c :: nat) \<le> 122) w"
  shows "(ToLower k s = w) = (casing_of w s \<or> (\<not> ascii s \<and> unicode_ToLower k s = w))"
proof (cases "ascii s")
  case True
  with map_lower_casing [OF assms, of s] show ?thesis by (simp add: ToLower_def)
next
  case False
  with casing_ascii [OF assms, of s] show ?thesis by (auto simp: ToLower_def)
qed

lemma ToLower_left:
  "(ToLower k s = ''left'') = (casing_of ''left'' s \<or> (\<not> ascii s \<and> unicode_ToLower k s = ''left''))"
  by (rule ToLower_casing) simp

lemma ToLower_right:
  "(ToLower k s = ''right'')
     = (casing_of ''right'' s \<or> (\<not> ascii s \<and> unicode_ToLower k s = ''right''))"
  by (rule ToLower_casing) simp

lemma ToLower_full:
  "(ToLower k s = ''full'') = (casing_of ''full'' s \<or> (\<not> ascii s \<and> unicode_ToLower k s = ''full''))"
  by (rule ToLower_casing) simp

section \<open>The topping specification parser\<close>

lemma toppingSpec_one:
  "n \<noteq> [] \<Longrightarrow> CHR '':'' \<notin> set n \<Longrightarrow> toppingSpec k n = Inr (n, ToppingFull k, ''1.0'')"
  by (simp add: toppingSpec_def Split_no_sep)

lemma toppingSpec_two:
  "n \<noteq> [] \<Longrightarrow> CHR '':'' \<notin> set n \<Longrightarrow> CHR '':'' \<notin> set sd \<Longrightarrow>
   toppingSpec k (n @ '':'' @ sd) = Inr (n, placement k sd, ''1.0'')"
  by (simp add: toppingSpec_def Split_no_sep Split_append)

lemma toppingSpec_three:
  "n \<noteq> [] \<Longrightarrow> CHR '':'' \<notin> set n \<Longrightarrow> CHR '':'' \<notin> set sd \<Longrightarrow> CHR '':'' \<notin> set am \<Longrightarrow>
   toppingSpec k (n @ '':'' @ sd @ '':'' @ am) = Inr (n, placement k sd, am)"
  by (simp add: toppingSpec_def Split_no_sep Split_append)

lemma addTopping_hands_over:
  "toppingSpec k s = Inr (n, sd, am) \<Longrightarrow> addTopping k s p = Item_AddTopping k n sd am p"
  by (simp add: addTopping_def)

lemma placement_std:
  "placement std_dawg ''RIGHT'' = ''2/2''" "placement std_dawg ''LeFt'' = ''1/2''"
  "placement std_dawg ''Full'' = ''1/1''" "placement std_dawg ''top'' = ''top''"
  by (simp_all add: placement_def ToLower_def ascii_def lower_byte_def char_of_eq_iff std_dawg_def)

text \<open>
  The side \<open>r\<close>, U+0130, \<open>ght\<close> is not ASCII; the Unicode tables lower it to \<open>right\<close>,
  and it is placed on the right half.
\<close>

lemma placement_dotted_I:
  "placement std_dawg (''r'' @ [CHR 0xC4, CHR 0xB0] @ ''ght'') = ''2/2''"
  by (simp add: placement_def ToLower_def ascii_def lower_byte_def std_dawg_def)

lemma casing_std:
  "casing_of ''left'' ''LeFt''" "casing_of ''right'' ''RIGHT''" "casing_of ''full'' ''Full''"
  "\<not> casing_of ''left'' ''top''" "\<not> casing_of ''right'' ''top''" "\<not> casing_of ''full'' ''top''"
  "ascii ''top''"
  by (simp_all add: map_lower_casing [symmetric] lower_byte_def char_of_eq_iff ascii_def)

text \<open>
  The parser of the cart package (\<open>addTopping\<close> in cmd/cart/cart.go) fails with the
  topping-format error exactly when the name field, the text before the first colon,
  is empty or the string has more than three colon-delimited fields; on every other
  string it yields a triple. When it fails, \<open>addTopping\<close> returns that error and the
  item is not touched.
\<close>

lemma toppingSpec_fails_iff:
  "(toppingSpec k s = Inl ErrToppingFormat) = (name_field s = [] \<or> 3 < field_count s)
   \<and> (\<exists>t. toppingSpec k s = Inr t) = (\<not> (name_field s = [] \<or> 3 < field_count s))
   \<and> (name_field s = [] \<or> 3 < field_count s \<longrightarrow> addTopping k s p = (p, Some ErrToppingFormat))"
  by (auto simp: addTopping_def toppingSpec_def Let_def hd_Split length_Split
        name_field_def field_count_def)

lemma toppingSpec_fails_iff_sample:
  "addTopping std_dawg '':left'' pizza = (pizza, Some ErrToppingFormat)
   \<and> addTopping std_dawg ''a:b:c:d'' pizza = (pizza, Some ErrToppingFormat)
   \<and> toppingSpec std_dawg [] = Inl ErrToppingFormat
   \<and> (\<exists>t. toppingSpec std_dawg ''a:b:c'' = Inr t)"
  using toppingSpec_fails_iff [of std_dawg "'':left''" pizza]
    toppingSpec_fails_iff [of std_dawg "''a:b:c:d''" pizza]
    toppingSpec_fails_iff [of std_dawg "[]" pizza]
    toppingSpec_fails_iff [of std_dawg "''a:b:c''" pizza]
  by (simp add: name_field_def field_count_def)

text \<open>
  The older copy of \<open>addTopping\<close> in cmd/cart.go, which \<open>cartCmd.Run\<close> calls, has no
  such check: its guard \<open>len(topping) < 1\<close> never holds, so it reports no error on
  any string.
\<close>

lemma legacy_toppingSpec_total: "\<exists>t. legacy_toppingSpec k s = Inr t"
  by (simp add: legacy_toppingSpec_def Let_def Split_nonempty)

lemma legacy_addTopping_no_error: "snd (legacy_addTopping k s p) = None"
  using legacy_toppingSpec_total [of k s]
  by (auto simp: legacy_addTopping_def split: sum.splits)

text \<open>
  C4. The claim holds of \<open>addTopping\<close> in cmd/cart/cart.go and fails on the code of
  cmd/cart.go: given \<open>":left"\<close>, whose name field is empty, and \<open>"a:b:c:d"\<close>, which
  has four fields, the older \<open>addTopping\<close> reports no error and puts a topping on
  the item (under the empty code, and under \<open>a\<close> with side \<open>b\<close>), where the parser of
  the cart package rejects both and leaves the item alone.
\<close>

theorem legacy_addTopping_accepts_malformed:
  "legacy_addTopping std_dawg '':left'' pizza
     = (pizza\<lparr>Opts := [[] \<mapsto> (''left'', ''1.0'')]\<rparr>, None)
   \<and> legacy_addTopping std_dawg ''a:b:c:d'' pizza
     = (pizza\<lparr>Opts := [''a'' \<mapsto> (''b'', ''1.0'')]\<rparr>, None)
   \<and> addTopping std_dawg '':left'' pizza = (pizza, Some ErrToppingFormat)
   \<and> addTopping std_dawg ''a:b:c:d'' pizza = (pizza, Some ErrToppingFormat)"
  by (simp add: legacy_addTopping_def legacy_toppingSpec_def addTopping_def toppingSpec_def
        std_dawg_def upsert_topping_def pizza_def)

text \<open>
  C5. \<open>addTopping\<close> hands to \<open>Item.AddTopping\<close>: for a spec of one field (a non-empty
  name without colon) that name, the whole placement and amount \<open>"1.0"\<close>; for a spec
  of two fields the name, the side as mapped by \<open>placement\<close> and amount \<open>"1.0"\<close>; for
  a spec of three fields the name, the mapped side and the third field as the
  amount. In particular \<open>"pepperoni"\<close>, \<open>"olive:left"\<close> and \<open>"basil:right:0.5"\<close> are
  parsed, and applied, as the specification lists them.
\<close>

theorem toppingSpec_fields:
  "(n \<noteq> [] \<and> CHR '':'' \<notin> set n \<longrightarrow>
      toppingSpec k n = Inr (n, ToppingFull k, ''1.0'')
      \<and> addTopping k n p = Item_AddTopping k n (ToppingFull k) ''1.0'' p)
   \<and> (n \<noteq> [] \<and> CHR '':'' \<notin> set n \<and> CHR '':'' \<notin> set sd \<longrightarrow>
      toppingSpec k (n @ '':'' @ sd) = Inr (n, placement k sd, ''1.0'')
      \<and> addTopping k (n @ '':'' @ sd) p = Item_AddTopping k n (placement k sd) ''1.0'' p)
   \<and> (n \<noteq> [] \<and> CHR '':'' \<notin> set n \<and> CHR '':'' \<notin> set sd \<and> CHR '':'' \<notin> set am \<longrightarrow>
      toppingSpec k (n @ '':'' @ sd @ '':'' @ am) = Inr (n, placement k sd, am)
      \<and> addTopping k (n @ '':'' @ sd @ '':'' @ am) p = Item_AddTopping k n (placement k sd) am p)
   \<and> toppingSpec k ''pepperoni'' = Inr (''pepperoni'', ToppingFull k, ''1.0'')
   \<and> toppingSpec k ''olive:left'' = Inr (''olive'', ToppingLeft k, ''1.0'')
   \<and> toppingSpec k ''basil:right:0.5'' = Inr (''basil'', ToppingRight k, ''0.5'')
   \<and> addTopping k ''pepperoni'' p = Item_AddTopping k ''pepperoni'' (ToppingFull k) ''1.0'' p
   \<and> addTopping k ''olive:left'' p = Item_AddTopping k ''olive'' (ToppingLeft k) ''1.0'' p
   \<and> addTopping k ''basil:right:0.5'' p = Item_AddTopping k ''basil'' (ToppingRight k) ''0.5'' p"
proof -
  have e1: "toppingSpec k ''pepperoni'' = Inr (''pepperoni'', ToppingFull k, ''1.0'')"
    by (simp add: toppingSpec_def)
  have e2: "toppingSpec k ''olive:left'' = Inr (''olive'', ToppingLeft k, ''1.0'')"
    by (simp add: toppingSpec_def placement_def ToLower_def ascii_def lower_byte_def)
  have e3: "toppingSpec k ''basil:right:0.5'' = Inr (''basil'', ToppingRight k, ''0.5'')"
    by (simp add: toppingSpec_def placement_def ToLower_def ascii_def lower_byte_def)
  note a = addTopping_hands_over [of k _ _ _ _ p]
  from e1 e2 e3 a [OF e1] a [OF e2] a [OF e3]
    toppingSpec_one [of n k] toppingSpec_two [of n sd k] toppingSpec_three [of n sd am k]
    a [of n n "ToppingFull k" "''1.0''"]
    a [of "n @ '':'' @ sd" n "placement k sd" "''1.0''"]
    a [of "n @ '':'' @ sd @ '':'' @ am" n "placement k sd" am]
  show ?thesis by blast
qed

theorem toppingSpec_fields_witness:
  "addTopping std_dawg ''ham'' pizza = (pizza\<lparr>Opts := [''ham'' \<mapsto> (''1/1'', ''1.0'')]\<rparr>, None)
   \<and> addTopping std_dawg ''ham:RIGHT'' pizza
        = (pizza\<lparr>Opts := [''ham'' \<mapsto> (''2/2'', ''1.0'')]\<rparr>, None)
   \<and> addTopping std_dawg ''ham:RIGHT:1.5'' pizza
        = (pizza\<lparr>Opts := [''ham'' \<mapsto> (''2/2'', ''1.5'')]\<rparr>, None)
   \<and> toppingSpec std_dawg ''ham:RIGHT:1.5'' = Inr (''ham'', ''2/2'', ''1.5'')"
  using toppingSpec_fields [of "''ham''" std_dawg pizza "''RIGHT''" "''1.5''"]
  by (simp add: placement_std) (simp add: std_dawg_def upsert_topping_def pizza_def)

text \<open>
  In the cart package the side of a spec of two or three fields is matched without
  regard to case: every casing of \<open>left\<close> gives the left-half placement, every casing
  of \<open>right\<close> the right-half one, every casing of \<open>full\<close> the whole one; any other
  ASCII side is handed on as it was written; and a side that is not ASCII is handed
  on as written unless the Unicode tables lower it to one of the three keywords.
  The side so mapped is the one \<open>addTopping\<close> hands to \<open>Item.AddTopping\<close>.
\<close>

lemma side_mapping:
  assumes "n \<noteq> []" and "CHR '':'' \<notin> set n" and "CHR '':'' \<notin> set sd" and "CHR '':'' \<notin> set am"
  shows "addTopping k (n @ '':'' @ sd) p = Item_AddTopping k n (placement k sd) ''1.0'' p
   \<and> addTopping k (n @ '':'' @ sd @ '':'' @ am) p = Item_AddTopping k n (placement k sd) am p
   \<and> (casing_of ''left'' sd \<longrightarrow> placement k sd = ToppingLeft k)
   \<and> (casing_of ''right'' sd \<longrightarrow> placement k sd = ToppingRight k)
   \<and> (casing_of ''full'' sd \<longrightarrow> placement k sd = ToppingFull k)
   \<and> (ascii sd \<and> \<not> casing_of ''left'' sd \<and> \<not> casing_of ''right'' sd \<and> \<not> casing_of ''full'' sd
        \<longrightarrow> placement k sd = sd)
   \<and> (\<not> ascii sd \<and> unicode_ToLower k sd \<noteq> ''left'' \<and> unicode_ToLower k sd \<noteq> ''right''
        \<and> unicode_ToLower k sd \<noteq> ''full'' \<longrightarrow> placement k sd = sd)"
proof -
  have two: "addTopping k (n @ '':'' @ sd) p = Item_AddTopping k n (placement k sd) ''1.0'' p"
    using assms(1-3) by (intro addTopping_hands_over toppingSpec_two)
  have three: "addTopping k (n @ '':'' @ sd @ '':'' @ am) p
      = Item_AddTopping k n (placement k sd) am p"
    using assms by (intro addTopping_hands_over toppingSpec_three)
  have l: "casing_of ''left'' sd \<Longrightarrow> ToLower k sd = ''left''"
    and r: "casing_of ''right'' sd \<Longrightarrow> ToLower k sd = ''right''"
    and f: "casing_of ''full'' sd \<Longrightarrow> ToLower k sd = ''full''"
    by (simp_all add: ToLower_left ToLower_right ToLower_full)
  have kw:
    "(casing_of ''left'' sd \<longrightarrow> placement k sd = ToppingLeft k)
     \<and> (casing_of ''right'' sd \<longrightarrow> placement k sd = ToppingRight k)
     \<and> (casing_of ''full'' sd \<longrightarrow> placement k sd = ToppingFull k)"
    using l r f by (auto simp: placement_def Let_def)
  have other:
    "(ascii sd \<and> \<not> casing_of ''left'' sd \<and> \<not> casing_of ''right'' sd \<and> \<not> casing_of ''full'' sd
        \<longrightarrow> placement k sd = sd)
     \<and> (\<not> ascii sd \<and> unicode_ToLower k sd \<noteq> ''left'' \<and> unicode_ToLower k sd \<noteq> ''right''
        \<and> unicode_ToLower k sd \<noteq> ''full'' \<longrightarrow> placement k sd = sd)"
    using casing_ascii [of "''left''" sd] casing_ascii [of "''right''" sd]
      casing_ascii [of "''full''" sd]
    by (auto simp: placement_def Let_def ToLower_left ToLower_right ToLower_full)
  from two three kw other show ?thesis by blast
qed

lemma side_mapping_sample:
  "addTopping std_dawg ''olive:LeFt'' pizza
     = (pizza\<lparr>Opts := [''olive'' \<mapsto> (''1/2'', ''1.0'')]\<rparr>, None)
   \<and> addTopping std_dawg ''olive:RIGHT:2'' pizza
     = (pizza\<lparr>Opts := [''olive'' \<mapsto> (''2/2'', ''2'')]\<rparr>, None)
   \<and> addTopping std_dawg ''olive:Full'' pizza
     = (pizza\<lparr>Opts := [''olive'' \<mapsto> (''1/1'', ''1.0'')]\<rparr>, None)
   \<and> addTopping std_dawg ''olive:top:2'' pizza
     = (pizza\<lparr>Opts := [''olive'' \<mapsto> (''top'', ''2'')]\<rparr>, None)"
  using side_mapping [of "''olive''" "''LeFt''" "''2''" std_dawg pizza]
    side_mapping [of "''olive''" "''RIGHT''" "''2''" std_dawg pizza]
    side_mapping [of "''olive''" "''Full''" "''2''" std_dawg pizza]
    side_mapping [of "''olive''" "''top''" "''2''" std_dawg pizza]
  by (simp add: casing_std) (simp add: std_dawg_def upsert_topping_def pizza_def)

text \<open>
  The older copy of \<open>addTopping\<close> in cmd/cart.go has no \<open>switch\<close> on the side: it hands
  the side on as written, keyword or not, whatever the placement constants are.
\<close>

lemma legacy_side_verbatim:
  "legacy_toppingSpec k (n @ '':'' @ sd) = Inr (hd (Split (n @ '':'' @ sd) CHR '':''), sd, ''1.0'')"
  if "CHR '':'' \<notin> set n" "CHR '':'' \<notin> set sd"
  using that by (simp add: legacy_toppingSpec_def Split_append Split_no_sep)

text \<open>
  C6. The claim holds of \<open>addTopping\<close> in cmd/cart/cart.go and fails on the code of
  cmd/cart.go: given \<open>"olive:LEFT"\<close> and \<open>"olive:Left"\<close>, two casings of \<open>left\<close>, the
  older \<open>addTopping\<close> puts the topping on the item with the sides \<open>LEFT\<close> and \<open>Left\<close>,
  as written and different from each other, where the parser of the cart package
  gives the left-half placement for both.
\<close>

theorem legacy_addTopping_side_as_written:
  "legacy_addTopping std_dawg ''olive:LEFT'' pizza
     = (pizza\<lparr>Opts := [''olive'' \<mapsto> (''LEFT'', ''1.0'')]\<rparr>, None)
   \<and> legacy_addTopping std_dawg ''olive:Left'' pizza
     = (pizza\<lparr>Opts := [''olive'' \<mapsto> (''Left'', ''1.0'')]\<rparr>, None)
   \<and> addTopping std_dawg ''olive:LEFT'' pizza
     = (pizza\<lparr>Opts := [''olive'' \<mapsto> (ToppingLeft std_dawg, ''1.0'')]\<rparr>, None)
   \<and> addTopping std_dawg ''olive:Left'' pizza
     = (pizza\<lparr>Opts := [''olive'' \<mapsto> (ToppingLeft std_dawg, ''1.0'')]\<rparr>, None)"
  by (simp add: legacy_addTopping_def legacy_toppingSpec_def addTopping_def toppingSpec_def
        placement_def ToLower_def ascii_def lower_byte_def char_of_eq_iff
        std_dawg_def upsert_topping_def pizza_def)

section \<open>Adding toppings to an order\<close>

lemma put_item_list_same: "getOrderItem_list ps c = Some p \<Longrightarrow> put_item_list ps c p = ps"
  by (induction ps) (auto split: if_splits)

lemma put_item_same: "getOrderItem o1 c = Some p \<Longrightarrow> put_item o1 c p = o1"
  by (simp add: getOrderItem_def put_item_def put_item_list_same)

lemma toppings_loop_append:
  "toppings_loop k o1 product (ts1 @ ts2) =
     (case toppings_loop k o1 product ts1 of
        (o2, None) \<Rightarrow> toppings_loop k o2 product ts2
      | (o2, Some e) \<Rightarrow> (o2, Some e))"
  by (induction ts1 arbitrary: o1) (auto split: option.splits prod.splits)

lemma olive_on_pizza1:
  "addToppingsToOrder std_dawg pizza1 ''14SCREEN'' [''olive'']
     = (pizza1\<lparr>Products := [pizza\<lparr>Opts := [''olive'' \<mapsto> (''1/1'', ''1.0'')]\<rparr>]\<rparr>, None)"
  by (simp add: addToppingsToOrder_def getOrderItem_def put_item_def addTopping_def
        toppingSpec_def std_dawg_def upsert_topping_def pizza1_def pizza_def)

text \<open>
  C3, as the specification states it, fails: with the topping list \<open>["olive", ":left"]\<close>
  the second spec is malformed, the error is reported, and the order has changed,
  since \<open>olive\<close> is on the item.
\<close>

theorem addToppingsToOrder_partial:
  "snd (addToppingsToOrder std_dawg pizza1 ''14SCREEN'' [''olive'', '':left''])
      = Some ErrToppingFormat
   \<and> fst (addToppingsToOrder std_dawg pizza1 ''14SCREEN'' [''olive'', '':left'']) \<noteq> pizza1
   \<and> Opts (hd (Products (fst (addToppingsToOrder std_dawg pizza1 ''14SCREEN''
        [''olive'', '':left''])))) ''olive'' = Some (''1/1'', ''1.0'')
   \<and> Opts (hd (Products pizza1)) ''olive'' = None"
proof -
  let ?o2 = "pizza1\<lparr>Products := [pizza\<lparr>Opts := [''olive'' \<mapsto> (''1/1'', ''1.0'')]\<rparr>]\<rparr>"
  have r: "addToppingsToOrder std_dawg pizza1 ''14SCREEN'' [''olive'', '':left'']
             = (?o2, Some ErrToppingFormat)"
    by (simp add: addToppingsToOrder_def getOrderItem_def put_item_def addTopping_def
          toppingSpec_def std_dawg_def upsert_topping_def pizza1_def pizza_def)
  have "Opts (hd (Products ?o2)) ''olive'' \<noteq> Opts (hd (Products pizza1)) ''olive''"
    by (simp add: pizza1_def pizza_def)
  then have "?o2 \<noteq> pizza1"
    by metis
  with r show ?thesis by (simp add: pizza1_def pizza_def)
qed

text \<open>
  C3, amended. \<open>addToppingsToOrder\<close> stops at the first failure and reports it. The
  order is unchanged when the product code is empty, when the product is absent
  from the order (and there is a topping to add), and when the first topping spec is
  malformed. When a later spec is malformed, the toppings before it have been
  applied and stay applied: the order is the one reached by adding them.
\<close>

theorem addToppingsToOrder_failure:
  "addToppingsToOrder k o1 [] ts = (o1, Some ErrNoProduct)
   \<and> (product \<noteq> [] \<and> getOrderItem o1 product = None \<and> ts \<noteq> [] \<longrightarrow>
        addToppingsToOrder k o1 product ts = (o1, Some (ErrCannotFind product (OrderName o1))))
   \<and> (product \<noteq> [] \<and> getOrderItem o1 product \<noteq> None \<and> toppingSpec k t = Inl e \<longrightarrow>
        addToppingsToOrder k o1 product (t # ts) = (o1, Some e))
   \<and> (addToppingsToOrder k o1 product ts1 = (o2, None) \<and> getOrderItem o2 product \<noteq> None
        \<and> toppingSpec k t = Inl e \<longrightarrow>
        addToppingsToOrder k o1 product (ts1 @ t # ts2) = (o2, Some e))"
proof -
  have a: "addToppingsToOrder k o1 [] ts = (o1, Some ErrNoProduct)"
    by (simp add: addToppingsToOrder_def)
  have b: "addToppingsToOrder k o1 product ts = (o1, Some (ErrCannotFind product (OrderName o1)))"
    if "product \<noteq> []" "getOrderItem o1 product = None" "ts \<noteq> []"
    using that by (cases ts) (simp_all add: addToppingsToOrder_def)
  have stop: "toppings_loop k o3 product (t # ts3) = (o3, Some e)"
    if "getOrderItem o3 product \<noteq> None" "toppingSpec k t = Inl e" for o3 ts3
    using that by (auto simp: addTopping_def put_item_same)
  have c: "addToppingsToOrder k o1 product (t # ts) = (o1, Some e)"
    if "product \<noteq> []" "getOrderItem o1 product \<noteq> None" "toppingSpec k t = Inl e"
    using that stop by (simp add: addToppingsToOrder_def)
  have d: "addToppingsToOrder k o1 product (ts1 @ t # ts2) = (o2, Some e)"
    if "addToppingsToOrder k o1 product ts1 = (o2, None)" "getOrderItem o2 product \<noteq> None"
      "toppingSpec k t = Inl e"
  proof -
    from that(1) have p: "product \<noteq> []" and l: "toppings_loop k o1 product ts1 = (o2, None)"
      by (auto simp: addToppingsToOrder_def split: if_splits)
    from l stop [OF that(2,3)] p show ?thesis
      by (simp add: addToppingsToOrder_def toppings_loop_append)
  qed
  from a b c d show ?thesis by blast
qed

theorem addToppingsToOrder_failure_witness:
  "addToppingsToOrder std_dawg pizza1 [] [''olive''] = (pizza1, Some ErrNoProduct)
   \<and> addToppingsToOrder std_dawg pizza1 ''2LCOKE'' [''olive'']
        = (pizza1, Some (ErrCannotFind ''2LCOKE'' ''pizza1''))
   \<and> addToppingsToOrder std_dawg pizza1 ''14SCREEN'' ['':left'', ''olive'']
        = (pizza1, Some ErrToppingFormat)
   \<and> addToppingsToOrder std_dawg pizza1 ''14SCREEN'' [''olive'', '':left'', ''ham'']
        = (pizza1\<lparr>Products := [pizza\<lparr>Opts := [''olive'' \<mapsto> (''1/1'', ''1.0'')]\<rparr>]\<rparr>,
           Some ErrToppingFormat)"
proof -
  let ?o2 = "pizza1\<lparr>Products := [pizza\<lparr>Opts := [''olive'' \<mapsto> (''1/1'', ''1.0'')]\<rparr>]\<rparr>"
  have bad: "toppingSpec std_dawg '':left'' = Inl ErrToppingFormat"
    by (simp add: toppingSpec_def)
  have here: "getOrderItem pizza1 ''14SCREEN'' \<noteq> None" "getOrderItem ?o2 ''14SCREEN'' \<noteq> None"
    and absent: "getOrderItem pizza1 ''2LCOKE'' = None"
    by (simp_all add: getOrderItem_def pizza1_def pizza_def)
  from addToppingsToOrder_failure [where k = std_dawg and ?o1.0 = pizza1 and ts = "[''olive'']"
        and product = "''2LCOKE''" and t = "'':left''" and e = ErrToppingFormat and ?ts1.0 = "[]"
        and ?o2.0 = pizza1 and ?ts2.0 = "[]"]
    addToppingsToOrder_failure [where k = std_dawg and ?o1.0 = pizza1 and ts = "[''olive'']"
        and product = "''14SCREEN''" and t = "'':left''" and e = ErrToppingFormat
        and ?ts1.0 = "[''olive'']" and ?o2.0 = ?o2 and ?ts2.0 = "[''ham'']"]
    bad here absent olive_on_pizza1
  show ?thesis by (simp add: pizza1_def)
qed

section \<open>The cart without a current order, and the menu refresh\<close>

text \<open>
  C9. On a cart whose current order is nil, each of \<open>AddToppings\<close>, \<open>AddProducts\<close> and
  \<open>Validate\<close> returns \<open>ErrNoCurrentOrder\<close>, whose message is "cart has no current order
  set" and which is not \<open>ErrOrderNotFound\<close>, and the cart is returned as it was: store,
  menu cache, order and output untouched.
\<close>

theorem no_current_order:
  "CurrentOrder c = None \<longrightarrow>
     AddToppings k c product toppings = (c, Some ErrNoCurrentOrder)
     \<and> AddProducts w k c products = (c, Some ErrNoCurrentOrder)
     \<and> Validate k c = (c, Some ErrNoCurrentOrder)
     \<and> message ErrNoCurrentOrder = ''cart has no current order set''
     \<and> ErrNoCurrentOrder \<noteq> ErrOrderNotFound"
  by (simp add: AddToppings_def AddProducts_def Validate_def)

theorem no_current_order_witness:
  "AddToppings std_dawg idle_cart ''14SCREEN'' [''olive''] = (idle_cart, Some ErrNoCurrentOrder)
   \<and> AddProducts today std_dawg idle_cart [''2LCOKE''] = (idle_cart, Some ErrNoCurrentOrder)
   \<and> Validate std_dawg idle_cart = (idle_cart, Some ErrNoCurrentOrder)"
  using no_current_order [of idle_cart std_dawg "''14SCREEN''" "[''olive'']" today "[''2LCOKE'']"]
  by (simp add: idle_cart_def)

lemma UpdateTS_entry:
  "UpdateTS w key c = (c1, None) \<Longrightarrow>
     \<exists>m t. menu_cache c1 key = Some (m, t)
       \<and> (stale w c key \<longrightarrow> FetchMenu w = Inr m \<and> t = now w)
       \<and> (\<not> stale w c key \<longrightarrow> c1 = c)"
  by (auto simp: UpdateTS_def stale_def split: option.splits sum.splits if_splits)

text \<open>
  C2, amended. \<open>AddProducts\<close> runs the staleness-checked refresh \<open>UpdateTS "menu"\<close>
  first. If the refresh fails, its error is returned and no code is resolved.
  Otherwise the codes are resolved against the catalog of the menu entry as the
  refresh left it: the catalog just fetched when the entry was stale or absent, the
  cached one when it was fresh. \<open>AddToppings\<close> triggers no refresh: it leaves the
  menu cache and the store as they were.
\<close>

theorem AddProducts_refreshes:
  "(CurrentOrder c = Some o1 \<and> UpdateTS w ''menu'' c = (c1, Some e) \<longrightarrow>
      AddProducts w k c products = (c1, Some e))
   \<and> (CurrentOrder c = Some o1 \<and> UpdateTS w ''menu'' c = (c1, None) \<longrightarrow>
      (\<exists>m t. menu_cache c1 ''menu'' = Some (m, t)
         \<and> (stale w c ''menu'' \<longrightarrow> FetchMenu w = Inr m \<and> t = now w)
         \<and> (\<not> stale w c ''menu'' \<longrightarrow> c1 = c)
         \<and> AddProducts w k c products =
             (c1\<lparr>CurrentOrder := Some (fst (addProducts k o1 (Some m) products))\<rparr>,
              snd (addProducts k o1 (Some m) products))))
   \<and> menu_cache (fst (AddToppings k c product toppings)) = menu_cache c
   \<and> db (fst (AddToppings k c product toppings)) = db c"
proof -
  have a: "AddProducts w k c products = (c1, Some e)"
    if "CurrentOrder c = Some o1" "UpdateTS w ''menu'' c = (c1, Some e)"
    using that by (simp add: AddProducts_def)
  have b: "\<exists>m t. menu_cache c1 ''menu'' = Some (m, t)
         \<and> (stale w c ''menu'' \<longrightarrow> FetchMenu w = Inr m \<and> t = now w)
         \<and> (\<not> stale w c ''menu'' \<longrightarrow> c1 = c)
         \<and> AddProducts w k c products =
             (c1\<lparr>CurrentOrder := Some (fst (addProducts k o1 (Some m) products))\<rparr>,
              snd (addProducts k o1 (Some m) products))"
    if "CurrentOrder c = Some o1" "UpdateTS w ''menu'' c = (c1, None)"
  proof -
    from UpdateTS_entry [OF that(2)] obtain m t where
      mt: "menu_cache c1 ''menu'' = Some (m, t)"
        "stale w c ''menu'' \<longrightarrow> FetchMenu w = Inr m \<and> t = now w"
        "\<not> stale w c ''menu'' \<longrightarrow> c1 = c"
      by blast
    from that mt(1) have "AddProducts w k c products =
             (c1\<lparr>CurrentOrder := Some (fst (addProducts k o1 (Some m) products))\<rparr>,
              snd (addProducts k o1 (Some m) products))"
      by (simp add: AddProducts_def Menu_def split: prod.splits)
    with mt show ?thesis by blast
  qed
  have c: "menu_cache (fst (AddToppings k c product toppings)) = menu_cache c"
    "db (fst (AddToppings k c product toppings)) = db c"
    by (simp_all add: AddToppings_def split: option.splits prod.splits)
  from a b c show ?thesis by blast
qed

lemma stale_sample: "stale today sample_cart ''menu''"
  by (simp add: stale_def today_def sample_cart_def)

lemma UpdateTS_sample:
  "UpdateTS today ''menu'' sample_cart
     = (sample_cart\<lparr>menu_cache := [''menu'' \<mapsto> (new_menu, 1000)]\<rparr>, None)"
  by (simp add: UpdateTS_def stale_sample) (simp add: today_def sample_cart_def empty_db_def)

text \<open>
  C2, as the specification states it, fails for \<open>AddToppings\<close>: on a cart whose menu
  entry is stale, adding a topping succeeds and the entry is as stale as before,
  where \<open>UpdateTS "menu"\<close> would have replaced it.
\<close>

theorem AddToppings_no_refresh:
  "snd (AddToppings std_dawg sample_cart ''14SCREEN'' [''olive'']) = None
   \<and> stale today sample_cart ''menu''
   \<and> stale today (fst (AddToppings std_dawg sample_cart ''14SCREEN'' [''olive''])) ''menu''
   \<and> menu_cache (fst (AddToppings std_dawg sample_cart ''14SCREEN'' [''olive''])) ''menu''
        = Some (old_menu, 0)
   \<and> menu_cache (fst (UpdateTS today ''menu'' sample_cart)) ''menu'' = Some (new_menu, 1000)"
proof -
  have cur: "CurrentOrder sample_cart = Some pizza1" by (simp add: sample_cart_def)
  have r: "AddToppings std_dawg sample_cart ''14SCREEN'' [''olive'']
    = (sample_cart\<lparr>CurrentOrder := Some (pizza1\<lparr>Products := [pizza\<lparr>Opts := [''olive'' \<mapsto> (''1/1'', ''1.0'')]\<rparr>]\<rparr>)\<rparr>, None)"
    by (simp add: AddToppings_def cur olive_on_pizza1)
  show ?thesis
    by (simp add: r UpdateTS_sample stale_sample) (simp add: stale_def sample_cart_def today_def)
qed

theorem AddProducts_refreshes_witness:
  "AddProducts today std_dawg sample_cart [''2LCOKE'']
     = (sample_cart\<lparr>menu_cache := [''menu'' \<mapsto> (new_menu, 1000)],
          CurrentOrder := Some (pizza1\<lparr>Products := [pizza, \<lparr>Code = ''2LCOKE'', Opts = Map.empty\<rparr>]\<rparr>)\<rparr>, None)
   \<and> AddProducts today std_dawg (sample_cart\<lparr>db := empty_db\<lparr>fault := Some (External ''closed'')\<rparr>\<rparr>) [''2LCOKE'']
     = (sample_cart\<lparr>db := empty_db\<lparr>fault := Some (External ''closed'')\<rparr>\<rparr>, Some (External ''closed''))"
proof -
  let ?c1 = "sample_cart\<lparr>menu_cache := [''menu'' \<mapsto> (new_menu, 1000)]\<rparr>"
  let ?bad = "sample_cart\<lparr>db := empty_db\<lparr>fault := Some (External ''closed'')\<rparr>\<rparr>"
  have cur: "CurrentOrder sample_cart = Some pizza1" "CurrentOrder ?bad = Some pizza1"
    by (simp_all add: sample_cart_def)
  have u: "UpdateTS today ''menu'' ?bad = (?bad, Some (External ''closed''))"
    by (simp add: UpdateTS_def)
  have f: "FetchMenu today = Inr new_menu" by (simp add: today_def)
  have p: "addProducts std_dawg pizza1 (Some new_menu) [''2LCOKE'']
     = (pizza1\<lparr>Products := [pizza, \<lparr>Code = ''2LCOKE'', Opts = Map.empty\<rparr>]\<rparr>, None)"
    by (simp add: std_dawg_def lookup_variant_def new_menu_def append_product_def pizza1_def)
  from AddProducts_refreshes [where c = sample_cart and ?o1.0 = pizza1 and w = today and ?c1.0 = ?c1
      and k = std_dawg and products = "[''2LCOKE'']" and e = Panic]
    AddProducts_refreshes [where c = ?bad and ?o1.0 = pizza1 and w = today and ?c1.0 = ?bad
      and k = std_dawg and products = "[''2LCOKE'']" and e = "External ''closed''"]
    cur u UpdateTS_sample stale_sample f p
  show ?thesis by auto
qed

section \<open>Loading a saved order\<close>

lemma db_Get_SaveOrder:
  "fault d = None \<Longrightarrow>
   SaveOrder o1 d = (d\<lparr>entries := AList.update (OrderPrefix @ OrderName o1)
       (Document \<lparr>doc_Address = Present (Address o1),
                    doc_ServiceMethod = Present (ServiceMethod o1),
                    doc_Products = Present (Products o1)\<rparr>) (entries d)\<rparr>, None)"
  by (simp add: SaveOrder_def json_Marshal_def db_Put_def)

lemma db_Get_after_save:
  "fault d = None \<Longrightarrow>
   db_Get (fst (SaveOrder o1 d)) (OrderPrefix @ OrderName o1)
     = Inr (Document \<lparr>doc_Address = Present (Address o1),
                    doc_ServiceMethod = Present (ServiceMethod o1),
                    doc_Products = Present (Products o1)\<rparr>)"
  by (simp add: db_Get_SaveOrder db_Get_def update_conv')

text \<open>
  What \<open>Cart.GetOrder\<close> does: it sets the requested name and the live default address
  on a new order and then decodes the stored document into it. The decoding
  overwrites every field the document carries, so the order is returned under the
  requested name, and with the live address only when the document carries no
  address. An order written by \<open>SaveOrder\<close> comes back exactly as it was saved.
\<close>

lemma GetOrder_loads_snapshot:
  "(fault (db c) = None \<longrightarrow>
      Cart_GetOrder w (c\<lparr>db := fst (SaveOrder o1 (db c))\<rparr>) (OrderName o1) = (Some o1, None))
   \<and> (db_Get (db c) (OrderPrefix @ name) = Inr (Document d) \<longrightarrow>
        (\<exists>o2. Cart_GetOrder w c name = (Some o2, None)
           \<and> OrderName o2 = name
           \<and> Address o2 = (case doc_Address d of
                              Absent \<Rightarrow> Some (finder_Address w)
                            | Present a \<Rightarrow> a)))"
proof -
  have a: "Cart_GetOrder w (c\<lparr>db := fst (SaveOrder o1 (db c))\<rparr>) (OrderName o1) = (Some o1, None)"
    if "fault (db c) = None"
    using db_Get_after_save [OF that, of o1]
    by (simp add: Cart_GetOrder_def json_Unmarshal_def empty_order_def)
  have b: "\<exists>o2. Cart_GetOrder w c name = (Some o2, None)
           \<and> OrderName o2 = name
           \<and> Address o2 = (case doc_Address d of
                              Absent \<Rightarrow> Some (finder_Address w)
                            | Present a \<Rightarrow> a)"
    if "db_Get (db c) (OrderPrefix @ name) = Inr (Document d)"
    using that by (simp add: Cart_GetOrder_def json_Unmarshal_def empty_order_def Let_def
          split: field.splits)
  from a b show ?thesis by blast
qed

lemma home_office: "home \<noteq> office"
  by (simp add: home_def office_def)

text \<open>
  For an order written by \<open>SaveOrder\<close> the live address therefore plays no part: the
  assignment of cart.go line 90 is undone by the decoding of line 91.
\<close>

lemma GetOrder_ignores_live_address:
  "fault (db c) = None \<Longrightarrow>
   Cart_GetOrder w (c\<lparr>db := fst (SaveOrder o1 (db c))\<rparr>) (OrderName o1)
     = Cart_GetOrder w' (c\<lparr>db := fst (SaveOrder o1 (db c))\<rparr>) (OrderName o1)"
  using GetOrder_loads_snapshot [where c = c and w = w and ?o1.0 = o1]
    GetOrder_loads_snapshot [where c = c and w = w' and ?o1.0 = o1]
  by simp

text \<open>
  C1. The claim fails on the code: the order \<open>pizza1\<close> is saved with the address
  \<open>home\<close>; it is loaded under its name while the user's live default address is
  \<open>office\<close>; the order returned has the name \<open>pizza1\<close>, as claimed, and the address
  \<open>home\<close>, the snapshot of save time, not the live address. The loader of
  managedb.go sets what it stamps after decoding; \<open>Cart.GetOrder\<close> does it before.
\<close>

theorem GetOrder_keeps_saved_address:
  "finder_Address today = office
   \<and> Address pizza1 = Some home
   \<and> Cart_GetOrder today (sample_cart\<lparr>db := fst (SaveOrder pizza1 empty_db)\<rparr>) ''pizza1''
       = (Some pizza1, None)
   \<and> Address pizza1 \<noteq> Some (finder_Address today)"
proof -
  have "Cart_GetOrder today (sample_cart\<lparr>db := fst (SaveOrder pizza1 empty_db)\<rparr>) ''pizza1''
       = (Some pizza1, None)"
    by (simp add: Cart_GetOrder_def SaveOrder_def json_Marshal_def db_Put_def db_Get_def
          empty_db_def json_Unmarshal_def empty_order_def pizza1_def OrderPrefix_def)
  then show ?thesis by (simp add: today_def pizza1_def home_office)
qed

lemma GetOrder_loads_snapshot_sample:
  "Cart_GetOrder today (sample_cart\<lparr>db := fst (SaveOrder pizza1 (db sample_cart))\<rparr>) ''pizza1''
      = (Some pizza1, None)
   \<and> (\<exists>o2. Cart_GetOrder today
          (sample_cart\<lparr>db := \<lparr>entries = [(''user_order_bare'',
              Document \<lparr>doc_Address = Absent, doc_ServiceMethod = Absent, doc_Products = Absent\<rparr>)],
              fault = None\<rparr>\<rparr>) ''bare'' = (Some o2, None)
        \<and> OrderName o2 = ''bare'' \<and> Address o2 = Some office)"
proof -
  let ?d = "\<lparr>doc_Address = Absent, doc_ServiceMethod = Absent, doc_Products = Absent\<rparr>"
  let ?c = "sample_cart\<lparr>db := \<lparr>entries = [(''user_order_bare'', Document ?d)], fault = None\<rparr>\<rparr>"
  have f: "fault (db sample_cart) = None" by (simp add: sample_cart_def empty_db_def)
  have n: "OrderName pizza1 = ''pizza1''" by (simp add: pizza1_def)
  have g: "db_Get (db ?c) (OrderPrefix @ ''bare'') = Inr (Document ?d)"
    by (simp add: db_Get_def OrderPrefix_def)
  from GetOrder_loads_snapshot [where c = sample_cart and w = today and ?o1.0 = pizza1]
    GetOrder_loads_snapshot [where c = ?c and w = today and name = "''bare''" and d = ?d] f n g
  show ?thesis by (simp add: today_def)
qed

text \<open>
  The loader of managedb.go decodes first and sets the name afterwards; it does not
  touch the address.
\<close>

lemma data_GetOrder_after_save:
  "fault d = None \<Longrightarrow> data_GetOrder (OrderName o1) (fst (SaveOrder o1 d)) = Inr o1"
  using db_Get_after_save [of d o1]
  by (simp add: data_GetOrder_def json_Unmarshal_def empty_order_def)

section \<open>Listing the saved orders\<close>

lemma names_loop_eq:
  "names_loop names ks =
     names @ map (\<lambda>k. ReplaceAll k OrderPrefix []) (filter (\<lambda>k. HasPrefix k OrderPrefix) ks)"
  by (induction ks arbitrary: names) auto

lemma ReplaceAll_Nil [simp]: "ReplaceAll [] old new = []"
  by (subst ReplaceAll.simps) simp

lemma ReplaceAll_Cons:
  "old \<noteq> [] \<Longrightarrow> ReplaceAll (c # cs) old new =
     (if HasPrefix (c # cs) old then new @ ReplaceAll (drop (length old) (c # cs)) old new
      else c # ReplaceAll cs old new)"
  by (subst ReplaceAll.simps) simp

lemma ReplaceAll_prefix:
  "old \<noteq> [] \<Longrightarrow> ReplaceAll (old @ s) old new = new @ ReplaceAll s old new"
  by (subst ReplaceAll.simps) (simp add: HasPrefix_def)


lemma length_ReplaceAll: "length (ReplaceAll s old []) \<le> length s"
proof (induction s old "[] :: string" rule: ReplaceAll.induct)
  case (1 s old)
  show ?case
  proof (cases "old = [] \<or> s = []")
    case True
    then show ?thesis by (subst ReplaceAll.simps) auto
  next
    case False
    then obtain c cs where s: "s = c # cs" by (cases s) auto
    show ?thesis
    proof (cases "HasPrefix s old")
      case True
      with False 1(1) have "length (ReplaceAll (drop (length old) s) old []) \<le> length s - length old"
        by simp
      with True False show ?thesis by (subst ReplaceAll.simps) simp
    next
      case no: False
      with False 1(2) have "length (ReplaceAll (tl s) old []) \<le> length (tl s)" by simp
      with no False s show ?thesis by (subst ReplaceAll.simps) simp
    qed
  qed
qed

lemma ReplaceAll_shrinks:
  "old \<noteq> [] \<Longrightarrow> Contains s old \<Longrightarrow> length (ReplaceAll s old []) + length old \<le> length s"
proof (induction s)
  case Nil
  then show ?case by simp
next
  case (Cons c cs)
  show ?case
  proof (cases "HasPrefix (c # cs) old")
    case True
    have "length (ReplaceAll (drop (length old) (c # cs)) old []) \<le> length (c # cs) - length old"
      using length_ReplaceAll [of "drop (length old) (c # cs)" old] by simp
    moreover from True have "length old \<le> length (c # cs)" by (simp add: HasPrefix_def)
    ultimately show ?thesis using True Cons.prems(1) by (simp add: ReplaceAll_Cons)
  next
    case False
    with Cons.prems have "Contains cs old" by simp
    with Cons.IH Cons.prems(1) False show ?thesis by (simp add: ReplaceAll_Cons)
  qed
qed

lemma ReplaceAll_absent: "\<not> Contains s old \<Longrightarrow> ReplaceAll s old new = s"
proof (induction s)
  case Nil
  then show ?case by simp
next
  case (Cons c cs)
  show ?case
  proof (cases "old = []")
    case True
    then show ?thesis by (subst ReplaceAll.simps) simp
  next
    case False
    with Cons show ?thesis by (simp add: ReplaceAll_Cons)
  qed
qed

lemma OrderPrefix_nonempty: "OrderPrefix \<noteq> []"
  by (simp add: OrderPrefix_def)


lemma ReplaceAll_sample:
  "ReplaceAll ''user_order_my_user_order_pizza'' ''user_order_'' [] = ''my_pizza''"
  by code_simp

lemma ListOrders_eq:
  "ListOrders c = Inr names \<Longrightarrow>
     names = map (\<lambda>k. ReplaceAll k OrderPrefix [])
                (filter (\<lambda>k. HasPrefix k OrderPrefix) (map fst (entries (db c))))"
  by (cases "fault (db c)") (simp_all add: ListOrders_def db_Map_def names_loop_eq)

text \<open>
  C10. \<open>Cart.ListOrders\<close> lists exactly the keys that begin with \<open>user_order_\<close>, each
  with every occurrence of \<open>user_order_\<close> taken out by \<open>strings.ReplaceAll\<close>, not only
  the leading one. So an order whose name contains \<open>user_order_\<close> is listed under a
  shorter, different name (\<open>my_user_order_pizza\<close> as \<open>my_pizza\<close>), and an order whose name
  does not contain it is listed under its name.
\<close>

theorem ListOrders_strips_every_occurrence:
  "(ListOrders c = Inr names \<longrightarrow>
      names = map (\<lambda>k. ReplaceAll k OrderPrefix [])
                (filter (\<lambda>k. HasPrefix k OrderPrefix) (map fst (entries (db c)))))
   \<and> (Contains name OrderPrefix \<longrightarrow>
        length (ReplaceAll (OrderPrefix @ name) OrderPrefix []) < length name
        \<and> ReplaceAll (OrderPrefix @ name) OrderPrefix [] \<noteq> name)
   \<and> (\<not> Contains name OrderPrefix \<longrightarrow> ReplaceAll (OrderPrefix @ name) OrderPrefix [] = name)
   \<and> ReplaceAll (OrderPrefix @ ''my_user_order_pizza'') OrderPrefix [] = ''my_pizza''"
proof -
  have strip: "ReplaceAll (OrderPrefix @ s) OrderPrefix [] = ReplaceAll s OrderPrefix []" for s
    using ReplaceAll_prefix [OF OrderPrefix_nonempty, of s "[]"] by simp
  have b: "length (ReplaceAll (OrderPrefix @ name) OrderPrefix []) < length name"
    if "Contains name OrderPrefix"
  proof -
    have "0 < length OrderPrefix" by (simp add: OrderPrefix_def)
    with ReplaceAll_shrinks [OF OrderPrefix_nonempty that] show ?thesis
      by (simp only: strip)
  qed
  have c: "ReplaceAll (OrderPrefix @ name) OrderPrefix [] = name" if "\<not> Contains name OrderPrefix"
    using ReplaceAll_absent [OF that] by (simp only: strip)
  have d: "ReplaceAll (OrderPrefix @ ''my_user_order_pizza'') OrderPrefix [] = ''my_pizza''"
    using ReplaceAll_sample by (simp add: OrderPrefix_def)
  have b': "ReplaceAll (OrderPrefix @ name) OrderPrefix [] \<noteq> name"
    if "Contains name OrderPrefix"
    using b [OF that] by auto
  from ListOrders_eq [of c names] b b' c d show ?thesis by blast
qed


theorem ListOrders_strips_every_occurrence_witness:
  "ListOrders (sample_cart\<lparr>db := \<lparr>entries = [(''user_order_my_user_order_pizza'', Malformed),
       (''menu'', Malformed), (''user_order_pizza1'', Malformed), (''my_user_order_x'', Malformed)],
       fault = None\<rparr>\<rparr>) = Inr [''my_pizza'', ''pizza1'']
   \<and> ReplaceAll (OrderPrefix @ ''my_user_order_pizza'') OrderPrefix [] \<noteq> ''my_user_order_pizza''
   \<and> ReplaceAll (OrderPrefix @ ''pizza1'') OrderPrefix [] = ''pizza1''"
proof -
  let ?c = "sample_cart\<lparr>db := \<lparr>entries = [(''user_order_my_user_order_pizza'', Malformed),
       (''menu'', Malformed), (''user_order_pizza1'', Malformed), (''my_user_order_x'', Malformed)],
       fault = None\<rparr>\<rparr>"
  obtain names where n: "ListOrders ?c = Inr names"
    by (simp add: ListOrders_def db_Map_def)
  have c1: "Contains ''my_user_order_pizza'' OrderPrefix"
    and c2: "\<not> Contains ''pizza1'' OrderPrefix"
    by (simp_all add: OrderPrefix_def HasPrefix_def)
  have p: "filter (\<lambda>k. HasPrefix k OrderPrefix) (map fst (entries (db ?c)))
            = [''user_order_my_user_order_pizza'', ''user_order_pizza1'']"
    by (simp add: OrderPrefix_def HasPrefix_def)
  from ListOrders_strips_every_occurrence [of ?c names "''my_user_order_pizza''"] n
  have e1: "names = map (\<lambda>k. ReplaceAll k OrderPrefix [])
      (filter (\<lambda>k. HasPrefix k OrderPrefix) (map fst (entries (db ?c))))"
    by blast
  from ListOrders_strips_every_occurrence [of ?c names "''my_user_order_pizza''"] c1
  have e3: "ReplaceAll (OrderPrefix @ ''my_user_order_pizza'') OrderPrefix [] \<noteq> ''my_user_order_pizza''"
    and e2: "ReplaceAll (OrderPrefix @ ''my_user_order_pizza'') OrderPrefix [] = ''my_pizza''"
    by blast+
  from ListOrders_strips_every_occurrence [of ?c names "''pizza1''"] c2
  have e4: "ReplaceAll (OrderPrefix @ ''pizza1'') OrderPrefix [] = ''pizza1''"
    by blast
  have v: "ReplaceAll ''user_order_my_user_order_pizza'' OrderPrefix [] = ''my_pizza''"
    "ReplaceAll ''user_order_pizza1'' OrderPrefix [] = ''pizza1''"
    using e2 e4 by (simp_all add: OrderPrefix_def)
  from e1 p v have "names = [''my_pizza'', ''pizza1'']" by simp
  with n e3 e4 show ?thesis by simp
qed

section \<open>The store locator\<close>

text \<open>
  C8. For every value other than the two service methods, the empty string
  included, \<open>SetServiceMethod\<close> fails with \<open>ErrBadService\<close> and the user, so also the
  current service method, is as before. (On the model of the user taken from the
  specification.)
\<close>

theorem SetServiceMethod_rejects:
  "(m \<noteq> Delivery \<and> m \<noteq> Carryout \<longrightarrow>
      SetServiceMethod m u = (u, Some ErrBadService)
      \<and> UserServiceMethod (fst (SetServiceMethod m u)) = UserServiceMethod u)
   \<and> SetServiceMethod [] u = (u, Some ErrBadService)
   \<and> SetServiceMethod ''invalid'' u = (u, Some ErrBadService)"
  by (simp add: SetServiceMethod_def valid_service_def Delivery_def Carryout_def)

theorem SetServiceMethod_rejects_witness:
  "SetServiceMethod ''not correct'' sample_user = (sample_user, Some ErrBadService)
   \<and> UserServiceMethod (fst (SetServiceMethod ''not correct'' sample_user)) = ''Carryout''"
  using SetServiceMethod_rejects [of "''not correct''" sample_user]
  by (simp add: Delivery_def Carryout_def sample_user_def)

lemma NearestStore_hit:
  "memo u = Some ((a, m), s) \<Longrightarrow> DefaultAddress u = Some a \<Longrightarrow> valid_service m \<Longrightarrow>
   NearestStore api m u = (u, Inr s)"
  by (simp add: NearestStore_def)

lemma NearestStore_miss:
  "DefaultAddress u = Some a \<Longrightarrow> valid_service m \<Longrightarrow> \<forall>s. memo u \<noteq> Some ((a, m), s) \<Longrightarrow>
   NearestStore api m u = lookup_store api a m u"
  by (cases "memo u") (auto simp: NearestStore_def)

lemma lookup_store_calls: "api_calls (fst (lookup_store api a m u)) = Suc (api_calls u)"
  by (cases "api a m") (simp_all add: lookup_store_def Let_def)

lemma lookup_store_memo:
  "lookup_store api a m u = (u1, Inr s) \<Longrightarrow>
   memo u1 = Some ((a, m), s) \<and> Addresses u1 = Addresses u"
  by (cases "api a m") (auto simp: lookup_store_def Let_def)

lemma NearestStore_first:
  assumes "NearestStore api m u = (u1, Inr s)"
  shows "\<exists>a. DefaultAddress u1 = Some a \<and> valid_service m \<and> memo u1 = Some ((a, m), s)"
proof -
  from assms obtain a where a: "DefaultAddress u = Some a"
    by (cases "DefaultAddress u") (auto simp: NearestStore_def)
  from assms a have v: "valid_service m"
    by (cases "valid_service m") (auto simp: NearestStore_def)
  show ?thesis
  proof (cases "\<exists>s'. memo u = Some ((a, m), s')")
    case True
    then obtain s' where "memo u = Some ((a, m), s')" by blast
    with assms a v NearestStore_hit [of u a m s' api] show ?thesis by auto
  next
    case False
    with assms a v NearestStore_miss [of u a m api] have "lookup_store api a m u = (u1, Inr s)"
      by simp
    from lookup_store_memo [OF this] a v show ?thesis by (simp add: DefaultAddress_def)
  qed
qed

text \<open>
  C7. After a call of \<open>NearestStore\<close> that returned a store, a second call with the
  same service method and the user unchanged returns the same store, handle
  included, and makes no lookup; a call with another valid service method, or with
  the memo kept but another default address, makes one more lookup against the
  ordering API. (On the model of the user taken from the specification.)
\<close>

theorem NearestStore_memo:
  assumes "NearestStore api m u = (u1, Inr s)"
  shows "NearestStore api m u1 = (u1, Inr s)
   \<and> api_calls (fst (NearestStore api m u1)) = api_calls u1
   \<and> (valid_service m' \<and> m' \<noteq> m \<longrightarrow>
        api_calls (fst (NearestStore api m' u1)) = Suc (api_calls u1))
   \<and> (memo u2 = memo u1 \<and> DefaultAddress u2 \<noteq> None \<and> DefaultAddress u2 \<noteq> DefaultAddress u1 \<longrightarrow>
        api_calls (fst (NearestStore api m u2)) = Suc (api_calls u2))"
proof -
  from NearestStore_first [OF assms] obtain a where
    a: "DefaultAddress u1 = Some a" and v: "valid_service m" and mm: "memo u1 = Some ((a, m), s)"
    by blast
  have 1: "NearestStore api m u1 = (u1, Inr s)"
    using mm a v by (rule NearestStore_hit)
  have 2: "api_calls (fst (NearestStore api m' u1)) = Suc (api_calls u1)"
    if "valid_service m'" "m' \<noteq> m"
    using NearestStore_miss [of u1 a m' api] a that mm by (simp add: lookup_store_calls)
  have 3: "api_calls (fst (NearestStore api m u2)) = Suc (api_calls u2)"
    if "memo u2 = memo u1" "DefaultAddress u2 \<noteq> None" "DefaultAddress u2 \<noteq> DefaultAddress u1"
  proof -
    from that(2) obtain a' where a': "DefaultAddress u2 = Some a'" by auto
    with that(3) a have "a' \<noteq> a" by simp
    with NearestStore_miss [of u2 a' m api] a' v that(1) mm show ?thesis
      by (simp add: lookup_store_calls)
  qed
  from 1 have 0: "api_calls (fst (NearestStore api m u1)) = api_calls u1" by simp
  from 0 1 2 3 show ?thesis by blast
qed


lemma sample_first:
  "NearestStore sample_api Delivery sample_user
     = (sample_user\<lparr>memo := Some ((home, Delivery),
          \<lparr>handle = 0, store_id = ''4336'', userAddress = home, userService = Delivery\<rparr>),
          api_calls := Suc 0\<rparr>,
        Inr \<lparr>handle = 0, store_id = ''4336'', userAddress = home, userService = Delivery\<rparr>)"
  by (simp add: NearestStore_def lookup_store_def DefaultAddress_def valid_service_def
        sample_user_def sample_api_def Let_def)

theorem NearestStore_memo_witness:
  "NearestStore sample_api Delivery (fst (NearestStore sample_api Delivery sample_user))
     = NearestStore sample_api Delivery sample_user
   \<and> api_calls (fst (NearestStore sample_api Delivery sample_user)) = 1
   \<and> api_calls (fst (NearestStore sample_api Carryout
        (fst (NearestStore sample_api Delivery sample_user)))) = 2
   \<and> api_calls (fst (NearestStore sample_api Delivery
        ((fst (NearestStore sample_api Delivery sample_user))\<lparr>Addresses := [office, home]\<rparr>))) = 2"
proof -
  let ?s = "\<lparr>handle = 0, store_id = ''4336'', userAddress = home, userService = Delivery\<rparr>"
  let ?u1 = "sample_user\<lparr>memo := Some ((home, Delivery), ?s), api_calls := Suc 0\<rparr>"
  have v: "valid_service Carryout" "Carryout \<noteq> Delivery"
    by (simp_all add: valid_service_def Carryout_def Delivery_def)
  have d: "DefaultAddress (?u1\<lparr>Addresses := [office, home]\<rparr>) \<noteq> None"
    "DefaultAddress (?u1\<lparr>Addresses := [office, home]\<rparr>) \<noteq> DefaultAddress ?u1"
    "memo (?u1\<lparr>Addresses := [office, home]\<rparr>) = memo ?u1"
    using home_office by (auto simp: DefaultAddress_def sample_user_def)
  from NearestStore_memo [OF sample_first, of Carryout "?u1\<lparr>Addresses := [office, home]\<rparr>"] v d
  show ?thesis by (simp add: sample_first)
qed

end
